theory Spec2Isabelle
  imports Complex_Main "HOL-Library.AList"
begin

section \<open>Configuration options of the EnsoGL runner (runner/config.ts)\<close>

text \<open>
  The development embeds \<^verbatim>\<open>lib/rust/ensogl/pack/js/src/runner/config.ts\<close>:
  the class \<^verbatim>\<open>Option\<close> with its coercing \<^verbatim>\<open>load\<close>, the class \<^verbatim>\<open>Group\<close> with
  \<^verbatim>\<open>merge\<close> and \<^verbatim>\<open>load\<close>, and the class \<^verbatim>\<open>Config\<close> with \<^verbatim>\<open>resolve\<close>,
  \<^verbatim>\<open>resolveFromObjectInternal\<close> and \<^verbatim>\<open>finalize\<close>.

  \<^item> \<^verbatim>\<open>Option\<close> objects are mutable and are shared by reference, so they live in a store
    (a function from references to records) that every mutating operation passes along.
  \<^item> \<^verbatim>\<open>Group\<close> objects and the plain nested option records are written only while they
    are being built (\<^verbatim>\<open>merge\<close> assigns only to the maps of its own fresh \<^verbatim>\<open>result\<close>), so they
    are immutable trees whose leaves are references to Options.
  \<^item> A JavaScript object used as a dictionary is an association list in insertion order with
    distinct keys; \<^verbatim>\<open>obj[k] = v\<close> is \<^const>\<open>AList.update\<close>, which replaces in place or appends.
    Only own properties are modelled: keys that name a member inherited from
    \<^verbatim>\<open>Object.prototype\<close> (such as \<^verbatim>\<open>constructor\<close>) and the numeric-key-first enumeration order
    of JavaScript are outside the model.
  \<^item> \<^verbatim>\<open>logger.error\<close> and \<^verbatim>\<open>console.error\<close> append to a list of diagnostics.
\<close>

subsection \<open>Values\<close>

text \<open>
  A JavaScript number, an IEEE 754 double: \<^verbatim>\<open>NaN\<close>, the two infinities, negative zero, or
  a finite double other than negative zero, given by its exact value.
\<close>

datatype jsnum = NaN | PosInfinity | NegInfinity | NegZero | Finite rat

text \<open>\<^verbatim>\<open>type OptionValue = string | boolean | number | (string | null)\<close>\<close>

datatype OptionValue = VString string | VBoolean bool | VNumber jsnum | VNull

text \<open>\<^verbatim>\<open>type OptionType = 'string' | 'boolean' | 'number'\<close>\<close>

datatype OptionType = StringT | BooleanT | NumberT

text \<open>
  A raw override value (\<^verbatim>\<open>any\<close> / \<^verbatim>\<open>unknown\<close> in the source): a string, a nested object
  with its entries in enumeration order, or some other scalar.
\<close>

datatype OverrideValue =
    OStr string
  | OObj "(string \<times> OverrideValue) list"
  | OBool bool
  | ONum jsnum
  | ONull
  | OUndefined

text \<open>What \<^verbatim>\<open>logger.error\<close> and \<^verbatim>\<open>console.error\<close> receive. The message of
  \<^verbatim>\<open>printValueUpdateError\<close> is kept as its interpolated parts: the qualified name, the
  expected type, the rejected input and the default value.\<close>

datatype diagnostic =
    ValueUpdateError string OptionType string OptionValue
  | ConsoleError string

subsection \<open>Option\<close>

record Option =
  name :: string
  group :: string
  default :: OptionValue
  "value" :: OptionValue
  type :: OptionType
  description :: string
  defaultDescription :: "string option"
  setByUser :: bool
  hidden :: bool
  primary :: bool

text \<open>The constructor: \<^verbatim>\<open>value\<close> starts as the default, \<^verbatim>\<open>setByUser\<close> as false, and the
  optional fields of \<^verbatim>\<open>cfg\<close> fall back with \<^verbatim>\<open>??\<close>.\<close>

definition new_Option ::
  "OptionValue \<Rightarrow> OptionType \<Rightarrow> string \<Rightarrow> string option \<Rightarrow> bool option \<Rightarrow> bool option \<Rightarrow> Option" where
  "new_Option cfg_default cfg_type cfg_description cfg_defaultDescription cfg_hidden cfg_primary =
     \<lparr> name = ''uninitialized'',
       group = ''uninitialized'',
       default = cfg_default,
       value = cfg_default,
       type = cfg_type,
       description = cfg_description,
       defaultDescription = cfg_defaultDescription,
       setByUser = False,
       hidden = (case cfg_hidden of None \<Rightarrow> False | Some h \<Rightarrow> h),
       primary = (case cfg_primary of None \<Rightarrow> True | Some p \<Rightarrow> p) \<rparr>"

definition qualifiedName :: "Option \<Rightarrow> string" where
  "qualifiedName opt =
     (if group opt \<noteq> [] \<and> group opt \<noteq> name opt then group opt @ ''.'' @ name opt
      else name opt)"

definition printValueUpdateError :: "Option \<Rightarrow> string \<Rightarrow> diagnostic" where
  "printValueUpdateError opt input =
     ValueUpdateError (qualifiedName opt) (type opt) input (default opt)"

text \<open>\<^verbatim>\<open>parseBoolean(value: any)\<close>: a \<^verbatim>\<open>switch\<close> with strict equality.\<close>

definition parseBoolean :: "OverrideValue \<Rightarrow> bool option" where
  "parseBoolean v =
     (if v = OBool True then Some True
      else if v = OBool False then Some False
      else if v = OStr ''true'' then Some True
      else if v = OStr ''false'' then Some False
      else if v = OStr ''enabled'' then Some True
      else if v = OStr ''disabled'' then Some False
      else if v = OStr ''yes'' then Some True
      else if v = OStr ''no'' then Some False
      else if v = OStr ''1'' then Some True
      else if v = OStr ''0'' then Some False
      else None)"

subsection \<open>\<^verbatim>\<open>Number(input)\<close> on a string\<close>

text \<open>
  The conversion the language applies to a string (ECMA-262, StringToNumber): white space is
  trimmed, the empty string is 0, then either a decimal literal with an optional sign,
  fraction and exponent, the word \<^verbatim>\<open>Infinity\<close> with an optional sign, or an unsigned
  hexadecimal, octal or binary integer literal; anything else is \<^verbatim>\<open>NaN\<close>. The value of
  the literal is rounded to the nearest double, ties to the even significand; a value that
  rounds to \<open>2\<^sup>1\<^sup>0\<^sup>2\<^sup>4\<close> or beyond is an infinity, and a negative literal whose magnitude rounds
  to zero is negative zero. (For a literal of more than 20 significant digits the standard
  also allows rounding at the 20th digit first; the engines round the exact value, and so
  does this definition.)

  A \<^typ>\<open>char\<close> stands for the UTF-16 code unit of the same number, so the strings here are
  the strings over code units below 256. The white space of the language in that range is
  TAB, LF, VT, FF, CR, SP and NBSP.
\<close>

definition isStrWhiteSpaceChar :: "char \<Rightarrow> bool" where
  "isStrWhiteSpaceChar c \<longleftrightarrow>
     c = CHR 0x09 \<or> c = CHR 0x0A \<or> c = CHR 0x0B \<or> c = CHR 0x0C \<or> c = CHR 0x0D \<or> c = CHR 0x20 \<or>
     c = CHR 0xA0"

definition trimString :: "string \<Rightarrow> string" where
  "trimString s = rev (dropWhile isStrWhiteSpaceChar (rev (dropWhile isStrWhiteSpaceChar s)))"

definition digitValue :: "char \<Rightarrow> nat option" where
  "digitValue c =
     (let n = (of_char c :: nat) in
      if 48 \<le> n \<and> n \<le> 57 then Some (n - 48)
      else if 97 \<le> n \<and> n \<le> 102 then Some (n - 87)
      else if 65 \<le> n \<and> n \<le> 70 then Some (n - 55)
      else None)"

definition isDigitIn :: "nat \<Rightarrow> char \<Rightarrow> bool" where
  "isDigitIn radix c = (case digitValue c of None \<Rightarrow> False | Some d \<Rightarrow> d < radix)"

definition digitsValue :: "nat \<Rightarrow> string \<Rightarrow> nat" where
  "digitsValue radix ds =
     foldl (\<lambda>acc c. radix * acc + (case digitValue c of None \<Rightarrow> 0 | Some d \<Rightarrow> d)) 0 ds"

text \<open>An optional exponent part that must reach the end of the literal.\<close>

definition parseExponent :: "string \<Rightarrow> int option" where
  "parseExponent s =
     (case s of
        [] \<Rightarrow> Some 0
      | c # r \<Rightarrow>
          if c = CHR ''e'' \<or> c = CHR ''E'' then
            (let neg = (case r of [] \<Rightarrow> False | d # _ \<Rightarrow> d = CHR ''-'');
                 ds = (case r of [] \<Rightarrow> []
                       | d # r' \<Rightarrow> if d = CHR ''+'' \<or> d = CHR ''-'' then r' else r)
             in if ds \<noteq> [] \<and> list_all (isDigitIn 10) ds
                then Some (if neg then - int (digitsValue 10 ds) else int (digitsValue 10 ds))
                else None)
          else None)"

text \<open>The number of binary digits of a natural number.\<close>

fun bitLength :: "nat \<Rightarrow> nat" where
  "bitLength n = (if n = 0 then 0 else Suc (bitLength (n div 2)))"

declare bitLength.simps [simp del]

definition pow2 :: "int \<Rightarrow> rat" where
  "pow2 e = (if 0 \<le> e then 2 ^ nat e else 1 / 2 ^ nat (- e))"

text \<open>
  The Number value for the non-negative rational \<open>p / q\<close> (\<open>q > 0\<close>). With \<open>e\<close> the binary
  exponent of \<open>p / q\<close> (\<open>2\<^sup>e \<le> p / q < 2\<^sup>e\<^sup>+\<^sup>1\<close>), the doubles around \<open>p / q\<close> are the multiples
  of \<open>2\<^sup>s\<close> for \<open>s = max e (-1022) - 52\<close>: 53 significant bits, or the subnormal spacing
  \<open>2\<^sup>-\<^sup>1\<^sup>0\<^sup>7\<^sup>4\<close>. \<open>p / q\<close> is rounded to the nearest multiple \<open>n\<close>, a tie going to the even \<open>n\<close>.
\<close>

definition NumberValue :: "nat \<Rightarrow> nat \<Rightarrow> jsnum" where
  "NumberValue p q =
     (if p = 0 then Finite 0
      else
        let e0 = int (bitLength p) - int (bitLength q);
            e = (if (if 0 \<le> e0 then q * 2 ^ nat e0 \<le> p else q \<le> p * 2 ^ nat (- e0))
                 then e0 else e0 - 1);
            s = max e (- 1022) - 52;
            N = (if s < 0 then p * 2 ^ nat (- s) else p);
            D = (if s < 0 then q else q * 2 ^ nat s);
            f = N div D;
            r = N mod D;
            n = (if 2 * r < D then f
                 else if D < 2 * r then f + 1
                 else if even f then f else f + 1)
        in if pow2 1024 \<le> of_nat n * pow2 s then PosInfinity
           else Finite (of_nat n * pow2 s))"

text \<open>The Number value for \<open>m \<times> 10\<^sup>k\<close>.\<close>

definition decimalValue :: "nat \<Rightarrow> int \<Rightarrow> jsnum" where
  "decimalValue m k =
     (if 0 \<le> k then NumberValue (m * 10 ^ nat k) 1 else NumberValue m (10 ^ nat (- k)))"

definition parseUnsignedDecimal :: "string \<Rightarrow> jsnum" where
  "parseUnsignedDecimal s =
     (if s = ''Infinity'' then PosInfinity
      else
        let ip = takeWhile (isDigitIn 10) s;
            r1 = dropWhile (isDigitIn 10) s;
            afterDot = (case r1 of [] \<Rightarrow> None
                        | c # r \<Rightarrow> if c = CHR ''.'' then Some r else None);
            fp = (case afterDot of None \<Rightarrow> [] | Some r \<Rightarrow> takeWhile (isDigitIn 10) r);
            r2 = (case afterDot of None \<Rightarrow> r1 | Some r \<Rightarrow> dropWhile (isDigitIn 10) r)
        in if ip = [] \<and> fp = [] then NaN
           else (case parseExponent r2 of
                   None \<Rightarrow> NaN
                 | Some e \<Rightarrow> decimalValue (digitsValue 10 (ip @ fp)) (e - int (length fp))))"

definition parseNonDecimal :: "string \<Rightarrow> nat option" where
  "parseNonDecimal s =
     (case s of
        z # p # ds \<Rightarrow>
          if z = CHR ''0'' \<and> ds \<noteq> [] then
            (if (p = CHR ''x'' \<or> p = CHR ''X'') \<and> list_all (isDigitIn 16) ds
               then Some (digitsValue 16 ds)
             else if (p = CHR ''o'' \<or> p = CHR ''O'') \<and> list_all (isDigitIn 8) ds
               then Some (digitsValue 8 ds)
             else if (p = CHR ''b'' \<or> p = CHR ''B'') \<and> list_all (isDigitIn 2) ds
               then Some (digitsValue 2 ds)
             else None)
          else None
      | _ \<Rightarrow> None)"

definition negateNum :: "jsnum \<Rightarrow> jsnum" where
  "negateNum n =
     (case n of
        NaN \<Rightarrow> NaN
      | PosInfinity \<Rightarrow> NegInfinity
      | NegInfinity \<Rightarrow> PosInfinity
      | NegZero \<Rightarrow> Finite 0
      | Finite q \<Rightarrow> if q = 0 then NegZero else Finite (- q))"

definition Number :: "string \<Rightarrow> jsnum" where
  "Number input =
     (let s = trimString input in
      case s of
        [] \<Rightarrow> Finite 0
      | c # r \<Rightarrow>
          (case parseNonDecimal s of
             Some n \<Rightarrow> NumberValue n 1
           | None \<Rightarrow>
               if c = CHR ''+'' then parseUnsignedDecimal r
               else if c = CHR ''-'' then negateNum (parseUnsignedDecimal r)
               else parseUnsignedDecimal s))"

definition isNaN :: "jsnum \<Rightarrow> bool" where
  "isNaN n \<longleftrightarrow> n = NaN"

subsection \<open>\<^verbatim>\<open>Option.load\<close>\<close>

text \<open>
  \<^verbatim>\<open>load(input: string)\<close> dispatches on \<^verbatim>\<open>typeof this.value\<close>, not on the declared
  \<^verbatim>\<open>type\<close>. The result is the updated Option and the diagnostics the call logged.
\<close>

definition load :: "string \<Rightarrow> Option \<Rightarrow> Option \<times> diagnostic list" where
  "load input opt =
     (case value opt of
        VBoolean _ \<Rightarrow>
          (case parseBoolean (OStr input) of
             None \<Rightarrow> (opt, [printValueUpdateError opt input])
           | Some newVal \<Rightarrow> (opt\<lparr>value := VBoolean newVal, setByUser := True\<rparr>, []))
      | VNumber _ \<Rightarrow>
          (let newVal = Number input in
           if isNaN newVal then (opt, [printValueUpdateError opt input])
           else (opt\<lparr>value := VNumber newVal, setByUser := True\<rparr>, []))
      | _ \<Rightarrow> (opt\<lparr>value := VString input, setByUser := True\<rparr>, []))"

subsection \<open>The store of Option objects\<close>

type_synonym ref = nat

record world =
  store :: "ref \<Rightarrow> Option"
  diagnostics :: "diagnostic list"

text \<open>\<^verbatim>\<open>option.load(value)\<close> on the object behind a reference.\<close>

definition load_at :: "ref \<Rightarrow> string \<Rightarrow> world \<Rightarrow> world" where
  "load_at r input w =
     (case load input (store w r) of
        (opt', ds) \<Rightarrow> w\<lparr>store := (store w)(r := opt'), diagnostics := diagnostics w @ ds\<rparr>)"

definition console_error :: "string \<Rightarrow> world \<Rightarrow> world" where
  "console_error msg w = w\<lparr>diagnostics := diagnostics w @ [ConsoleError msg]\<rparr>"

subsection \<open>Group\<close>

datatype Group =
  Group (options: "(string \<times> ref) list") (groups: "(string \<times> Group) list")

text \<open>
  \<^verbatim>\<open>merge\<close> starts from copies of the maps of \<^verbatim>\<open>this\<close> and runs over the entries of
  \<^verbatim>\<open>other\<close>. A group held by both is merged recursively, any other group of \<^verbatim>\<open>other\<close>
  and every Option of \<^verbatim>\<open>other\<close> is stored as the reference it is. The branch
  \<^verbatim>\<open>if (option != null) { // TODO warning }\<close> has an empty body, so it leaves no trace.
\<close>

function merge :: "Group \<Rightarrow> Group \<Rightarrow> Group" where
  "merge this other =
     Group
       (fold (\<lambda>(otherOptionName, otherOption) result_options.
                AList.update otherOptionName otherOption result_options)
             (options other) (options this))
       (fold (\<lambda>(otherGroupName, otherGroup) result_groups.
                case map_of result_groups otherGroupName of
                  None \<Rightarrow> AList.update otherGroupName otherGroup result_groups
                | Some grp \<Rightarrow>
                    AList.update otherGroupName (merge grp otherGroup) result_groups)
             (groups other) (groups this))"
  by pat_completeness auto
termination
proof (relation "measure (\<lambda>(this, other). size other)")
  show "wf (measure (\<lambda>(this, other). size other))"
    by simp
next
  fix this other :: Group and x :: "string \<times> Group" and xa otherGroupName otherGroup x2
  assume "x \<in> set (groups other)" and "(otherGroupName, otherGroup) = x"
  then have "(otherGroupName, otherGroup) \<in> set (groups other)"
    by simp
  then have "size otherGroup < size other"
    by (cases other) (auto simp: less_Suc_eq_le intro!: size_list_estimation')
  then show "((x2, otherGroup), (this, other)) \<in> measure (\<lambda>(this, other). size other)"
    by simp
qed

declare merge.simps [simp del]

text \<open>\<^verbatim>\<open>Group.load(config: unknown)\<close>: only string entries naming a direct Option are loaded.\<close>

definition Group_load :: "Group \<Rightarrow> OverrideValue \<Rightarrow> world \<Rightarrow> world" where
  "Group_load this config w =
     (case config of
        OObj entries \<Rightarrow>
          fold (\<lambda>(key, v) w.
                  case v of
                    OStr s \<Rightarrow>
                      (case map_of (options this) key of
                         None \<Rightarrow> console_error ''TODO'' w
                       | Some option \<Rightarrow> load_at option s w)
                  | _ \<Rightarrow> console_error ''TODO'' w)
               entries w
      | _ \<Rightarrow> console_error ''TODO'' w)"

subsection \<open>The plain option records of \<^verbatim>\<open>Config\<close>\<close>

text \<open>
  \<^verbatim>\<open>interface ExternalOptions { [key: string]: Option<OptionValue> | ExternalOptions }\<close>:
  an entry is an Option (\<^verbatim>\<open>instanceof Option\<close>) or a nested record.
\<close>

datatype ExternalEntry =
    IsOption ref
  | IsOptions "(string \<times> ExternalEntry) list"

type_synonym ExternalOptions = "(string \<times> ExternalEntry) list"

function initOptions :: "ExternalOptions \<Rightarrow> world \<Rightarrow> world" where
  "initOptions opts w =
     fold (\<lambda>(key, v) w.
             case v of
               IsOption r \<Rightarrow> w\<lparr>store := (store w)(r := (store w r)\<lparr>name := key, group := ''TODO''\<rparr>)\<rparr>
             | IsOptions sub \<Rightarrow> initOptions sub w)
          opts w"
  by pat_completeness auto
termination
proof (relation "measure (\<lambda>(opts, w). size (IsOptions opts))")
  show "wf (measure (\<lambda>(opts, w). size (IsOptions opts)))"
    by simp
next
  fix opts :: ExternalOptions and w xa :: world and x :: "string \<times> ExternalEntry"
    and key v sub
  assume "x \<in> set opts" and "(key, v) = x" and "v = IsOptions sub"
  then have "(key, IsOptions sub) \<in> set opts"
    by simp
  then have "size (IsOptions sub) \<le> size_list (size_prod (\<lambda>_. 0) size) opts"
    by (intro size_list_estimation') auto
  then show "((sub, xa), (opts, w)) \<in> measure (\<lambda>(opts, w). size (IsOptions opts))"
    by simp
qed

declare initOptions.simps [simp del]

text \<open>
  \<^verbatim>\<open>resolveFromObjectInternal(options, other)\<close>. A string met at an Option is assigned to
  \<^verbatim>\<open>option.value\<close> as it is (\<^verbatim>\<open>// FIXME parsing\<close>); \<^verbatim>\<open>setByUser\<close> is not touched and
  \<^verbatim>\<open>Option.load\<close> is not called. Every other mismatch is an empty \<^verbatim>\<open>// TODO\<close> branch. The
  function ends with \<^verbatim>\<open>return null\<close> on every path.
\<close>

function resolveFromObjectInternal ::
  "ExternalOptions \<Rightarrow> OverrideValue \<Rightarrow> world \<Rightarrow> string list option \<times> world" where
  "resolveFromObjectInternal opts other w =
     (None,
      case other of
        OObj entries \<Rightarrow>
          fold (\<lambda>(key, v) w.
                  case map_of opts key of
                    None \<Rightarrow> w
                  | Some option \<Rightarrow>
                      (case v of
                         OStr s \<Rightarrow>
                           (case option of
                              IsOption r \<Rightarrow>
                                w\<lparr>store := (store w)(r := (store w r)\<lparr>value := VString s\<rparr>)\<rparr>
                            | IsOptions _ \<Rightarrow> w)
                       | _ \<Rightarrow>
                           (case option of
                              IsOption _ \<Rightarrow> w
                            | IsOptions sub \<Rightarrow> snd (resolveFromObjectInternal sub v w))))
               entries w
      | _ \<Rightarrow> w)"
  by pat_completeness auto
termination
proof (relation "measure (\<lambda>(opts, other, w). size other)")
  show "wf (measure (\<lambda>(opts, other, w). size other))"
    by simp
qed (auto simp: less_Suc_eq_le intro!: size_list_estimation')

declare resolveFromObjectInternal.simps [simp del]

definition resolveFromObject ::
  "ExternalOptions \<Rightarrow> (string \<times> OverrideValue) list \<Rightarrow> world \<Rightarrow> string list option \<times> world" where
  "resolveFromObject this_options other w = resolveFromObjectInternal this_options (OObj other) w"

subsection \<open>\<^verbatim>\<open>Config.finalize\<close> and \<^verbatim>\<open>Config.resolve\<close>\<close>

definition DEFAULT_ENTRY_POINT :: string where
  "DEFAULT_ENTRY_POINT = ''ide''"

text \<open>A property access on a missing object throws.\<close>

datatype error = TypeError

text \<open>
  \<^verbatim>\<open>this.options.<group>.<name>\<close>. The type \<^verbatim>\<open>Options\<close> promises that
  \<^verbatim>\<open>loader.enabled\<close> and \<^verbatim>\<open>startup.entry\<close> are Options; a record that breaks the promise
  has no reference to give.
\<close>

definition optionAt :: "ExternalOptions \<Rightarrow> string \<Rightarrow> string \<Rightarrow> ref option" where
  "optionAt opts g n =
     (case map_of opts g of
        Some (IsOptions sub) \<Rightarrow>
          (case map_of sub n of Some (IsOption r) \<Rightarrow> Some r | _ \<Rightarrow> None)
      | _ \<Rightarrow> None)"

text \<open>\<^verbatim>\<open>finalize()\<close>; the \<^verbatim>\<open>&&\<close> reads \<^verbatim>\<open>startup.entry\<close> only when \<^verbatim>\<open>setByUser\<close> is false.\<close>

definition finalize :: "ExternalOptions \<Rightarrow> world \<Rightarrow> error + world" where
  "finalize this_options w =
     (case optionAt this_options ''loader'' ''enabled'' of
        None \<Rightarrow> Inl TypeError
      | Some enabled \<Rightarrow>
          if setByUser (store w enabled) then Inr w
          else
            (case optionAt this_options ''startup'' ''entry'' of
               None \<Rightarrow> Inl TypeError
             | Some entry \<Rightarrow>
                 if value (store w entry) \<noteq> VString DEFAULT_ENTRY_POINT
                 then Inr (w\<lparr>store := (store w)(enabled := (store w enabled)\<lparr>value := VBoolean False\<rparr>)\<rparr>)
                 else Inr w))"

text \<open>\<^verbatim>\<open>Object.assign(target, source)\<close> on dictionaries.\<close>

definition Object_assign ::
  "(string \<times> 'v) list \<Rightarrow> (string \<times> 'v) list \<Rightarrow> (string \<times> 'v) list" where
  "Object_assign target source = fold (\<lambda>(k, v) t. AList.update k v t) source target"

text \<open>
  \<^verbatim>\<open>resolve(overrides: (Record<string, Record<string, any>> | undefined)[])\<close>: the sources
  are folded group by group into \<^verbatim>\<open>allOverrides\<close> (a later source overwrites the keys it
  repeats), the result is resolved against the options, and \<^verbatim>\<open>finalize\<close> runs. The value
  returned is the one of \<^verbatim>\<open>resolveFromObject\<close>.
\<close>

type_synonym override = "(string \<times> (string \<times> OverrideValue) list) list"

definition collectOverrides :: "override option list \<Rightarrow> override" where
  "collectOverrides overrides =
     fold (\<lambda>override allOverrides.
             case override of
               None \<Rightarrow> allOverrides
             | Some entries \<Rightarrow>
                 fold (\<lambda>(grp, opts) allOverrides.
                         let overridesGroup =
                               (case map_of allOverrides grp of None \<Rightarrow> [] | Some g \<Rightarrow> g)
                         in AList.update grp (Object_assign overridesGroup opts) allOverrides)
                      entries allOverrides)
          overrides []"

definition resolve ::
  "ExternalOptions \<Rightarrow> override option list \<Rightarrow> world \<Rightarrow> error + (string list option \<times> world)" where
  "resolve this_options overrides w =
     (let allOverrides = collectOverrides overrides;
          r = resolveFromObject this_options (map (\<lambda>(grp, opts). (grp, OObj opts)) allOverrides) w;
          unrecognizedParams = fst r
      in case finalize this_options (snd r) of
           Inl e \<Rightarrow> Inl e
         | Inr w' \<Rightarrow> Inr (unrecognizedParams, w'))"

subsection \<open>The objects the module creates\<close>

text \<open>
  Every \<^verbatim>\<open>new Option\<close> of the module allocates the next reference, in evaluation order:
  0 to 3 are the Options of \<^verbatim>\<open>opt1\<close> and \<^verbatim>\<open>opt2\<close>, 4 to 13 those of the exported
  \<^verbatim>\<open>options\<close>. No other reference is in use.
\<close>

definition module_store :: "ref \<Rightarrow> Option" where
  "module_store =
     (\<lambda>_. new_Option VNull StringT [] None None None)
     (0 := new_Option (VBoolean False) BooleanT ''foo'' None None None,
      1 := new_Option (VBoolean False) BooleanT ''foo'' None None None,
      2 := new_Option (VBoolean False) BooleanT ''foo'' None None None,
      3 := new_Option (VBoolean False) BooleanT ''foo'' None None None,
      4 := new_Option (VBoolean True) BooleanT
             (''Controls whether the visual loader should be visible on the screen when '' @
              ''downloading and compiling WASM sources. By default, the loader is used only if '' @
              ''the `entry` is set to '' @ ''ide'' @ ''.'')
             None None (Some False),
      5 := new_Option (VString ''pkg.wasm'') StringT
             ''The URL of the WASM pkg file generated by ensogl-pack.'' None None (Some False),
      6 := new_Option (VString ''pkg.js'') StringT
             ''The URL of the JS pkg file generated by ensogl-pack.'' None None (Some False),
      7 := new_Option (VString ''shaders'') StringT
             ''The URL of pre-compiled the shaders directory.'' None None (Some False),
      8 := new_Option (VNumber (Finite 1)) NumberT
             (''The (time needed for WASM download) / (total time including WASM '' @
              ''download and WASM app initialization). In case of small WASM apps, this can be set '' @
              ''to 1.0. In case of bigger WASM apps, it is desired to show the progress bar growing '' @
              ''up to e.g. 70% and leaving the last 30% for WASM app init.'')
             None None (Some False),
      9 := new_Option (VNumber (Finite 300)) NumberT
             (''The maximum time in milliseconds a before main entry point is allowed to run. After '' @
              ''this time, an error will be printed, but the execution will continue.'')
             None None (Some False),
      10 := new_Option (VString ''ide'') StringT
             ''The application entry point. Use `entry=_` to list available entry points.''
             None None None,
      11 := new_Option (VString ''default'') StringT ''The EnsoGL theme to be used.'' None None None,
      12 := new_Option (VBoolean False) BooleanT
             (''Controls whether the application should be run in the debug mode. In this mode all '' @
              ''logs are printed to the console. Otherwise, the logs are hidden unless explicitly '' @
              ''shown by calling `showLogs`. Moreover, EnsoGL extensions are loaded in the debug '' @
              ''mode which may cause additional logs to be printed.'')
             None None None,
      13 := new_Option (VBoolean False) BooleanT
             (''Enables SpectorJS. This is a temporary flag to test Spector. It will be removed '' @
              ''after all Spector integration issues are resolved. See: '' @
              ''https://github.com/BabylonJS/Spector.js/issues/252.'')
             None None (Some False))"

definition module_world :: world where
  "module_world = \<lparr> store = module_store, diagnostics = [] \<rparr>"

definition opt1 :: Group where
  "opt1 = Group [(''opt1'', 0)] [(''grp1'', Group [(''grp1Opt1'', 1)] [])]"

definition opt2 :: Group where
  "opt2 = Group [(''opt2'', 2)] [(''grp1'', Group [(''grp1Opt2'', 3)] [])]"

text \<open>The exported constant \<^verbatim>\<open>options\<close>, the default of \<^verbatim>\<open>Config\<close>.\<close>

definition app_options :: ExternalOptions where
  "app_options =
     [(''loader'',
         IsOptions
           [(''enabled'', IsOption 4),
            (''pkgWasmUrl'', IsOption 5),
            (''pkgJsUrl'', IsOption 6),
            (''shadersUrl'', IsOption 7),
            (''loaderDownloadToInitRatio'', IsOption 8),
            (''maxBeforeMainTimeMs'', IsOption 9)]),
      (''startup'',
         IsOptions
           [(''entry'', IsOption 10),
            (''theme'', IsOption 11)]),
      (''debug'',
         IsOptions
           [(''debug'', IsOption 12),
            (''enableSpector'', IsOption 13)])]"

text \<open>The constructor of \<^verbatim>\<open>Config\<close>: \<^verbatim>\<open>this.options = inputOptions || options\<close>, then
  \<^verbatim>\<open>initOptions(this.options)\<close>. A \<^verbatim>\<open>Config\<close> is its \<^verbatim>\<open>options\<close> field.\<close>

definition new_Config :: "ExternalOptions option \<Rightarrow> world \<Rightarrow> ExternalOptions \<times> world" where
  "new_Config inputOptions w =
     (let this_options = (case inputOptions of None \<Rightarrow> app_options | Some opts \<Rightarrow> opts)
      in (this_options, initOptions this_options w))"

text \<open>The \<^verbatim>\<open>Config\<close> made by \<^verbatim>\<open>new Config()\<close> after the module is loaded, and the store it
  leaves.\<close>

definition app_config :: ExternalOptions where
  "app_config = fst (new_Config None module_world)"

definition app_world :: world where
  "app_world = snd (new_Config None module_world)"

text \<open>What a caller sees of one Option after \<^verbatim>\<open>resolve\<close>: the returned list, the value and
  \<^verbatim>\<open>setByUser\<close> of the Option, and everything logged.\<close>

definition outcome ::
  "error + (string list option \<times> world) \<Rightarrow> ref \<Rightarrow>
     error + (string list option \<times> OptionValue \<times> bool \<times> diagnostic list)" where
  "outcome res r =
     (case res of
        Inl e \<Rightarrow> Inl e
      | Inr (unrecognizedParams, w) \<Rightarrow>
          Inr (unrecognizedParams, value (store w r), setByUser (store w r), diagnostics w))"

subsection \<open>Notions the properties are stated with\<close>

text \<open>The Options reachable from a Group: its own and those of its child groups.\<close>

fun reachable :: "Group \<Rightarrow> ref set" where
  "reachable (Group os gs) = snd ` set os \<union> (\<Union>g \<in> snd ` set gs. reachable g)"

definition reachable_in :: "(string \<times> Group) list \<Rightarrow> ref set" where
  "reachable_in gs = (\<Union>g \<in> snd ` set gs. reachable g)"

text \<open>The maps of a Group are JavaScript objects: no name occurs twice in one of them.\<close>

definition distinct_names :: "Group \<Rightarrow> bool" where
  "distinct_names g \<longleftrightarrow> distinct (map fst (options g)) \<and> distinct (map fst (groups g))"

text \<open>Two Groups share no Option name and no group name.\<close>

definition disjoint_names :: "Group \<Rightarrow> Group \<Rightarrow> bool" where
  "disjoint_names a b \<longleftrightarrow>
     set (map fst (options a)) \<inter> set (map fst (options b)) = {} \<and>
     set (map fst (groups a)) \<inter> set (map fst (groups b)) = {}"

text \<open>A step from \<^verbatim>\<open>w\<close> to \<^verbatim>\<open>w'\<close> that logs nothing and changes no \<^verbatim>\<open>setByUser\<close>.\<close>

definition quiet :: "world \<Rightarrow> world \<Rightarrow> bool" where
  "quiet w w' \<longleftrightarrow>
     diagnostics w' = diagnostics w \<and> (\<forall>r. setByUser (store w' r) = setByUser (store w r))"

text \<open>The Option behind a reference after \<^verbatim>\<open>resolve\<close>.\<close>

definition option_after :: "error + (string list option \<times> world) \<Rightarrow> ref \<Rightarrow> error + Option" where
  "option_after res r =
     (case res of
        Inl e \<Rightarrow> Inl e
      | Inr (unrecognizedParams, w) \<Rightarrow> Inr (store w r))"

section \<open>Properties\<close>

lemmas module_defs = module_world_def module_store_def new_Option_def

subsection \<open>Facts about the module's objects\<close>

lemma module_setByUser: "setByUser (module_store r) = False"
  by (simp add: module_store_def new_Option_def)

lemma module_values:
  "value (module_store 0) = VBoolean False"
  "value (module_store 2) = VBoolean False"
  "value (module_store 4) = VBoolean True"
  "value (module_store 10) = VString ''ide''"
  "value (module_store 12) = VBoolean False"
  by (simp_all add: module_store_def new_Option_def)

lemma module_types:
  "type (module_store 9) = NumberT"
  "type (module_store 12) = BooleanT"
  by (simp_all add: module_store_def new_Option_def)

lemmas resolve_defs = outcome_def resolve_def collectOverrides_def Object_assign_def
  resolveFromObject_def finalize_def optionAt_def DEFAULT_ENTRY_POINT_def
  app_config_def app_world_def new_Config_def app_options_def
  initOptions.simps resolveFromObjectInternal.simps

subsection \<open>Evaluating \<^verbatim>\<open>Number\<close>\<close>

text \<open>The binary digits of a numeral are counted off its representation.\<close>

lemma bitLength_numeral:
  "bitLength 0 = 0"
  "bitLength 1 = 1"
  "bitLength (numeral Num.One) = 1"
  "bitLength (numeral (Num.Bit0 k)) = bitLength (numeral k) + 1"
  "bitLength (numeral (Num.Bit1 k)) = bitLength (numeral k) + 1"
proof -
  show "bitLength 0 = 0"
    by (simp add: bitLength.simps)
  show one: "bitLength 1 = 1"
    by (subst bitLength.simps) (simp add: bitLength.simps)
  then show "bitLength (numeral Num.One) = 1"
    by simp
  show "bitLength (numeral (Num.Bit0 k)) = bitLength (numeral k) + 1"
    by (subst bitLength.simps) simp
  show "bitLength (numeral (Num.Bit1 k)) = bitLength (numeral k) + 1"
    by (subst bitLength.simps) simp
qed

text \<open>The literal is parsed first, its value rounded next, the powers of two evaluated last.\<close>

lemmas parse_defs = Number_def trimString_def isStrWhiteSpaceChar_def parseNonDecimal_def
  parseUnsignedDecimal_def isDigitIn_def digitValue_def parseExponent_def digitsValue_def
  decimalValue_def negateNum_def

lemmas round_defs = NumberValue_def Let_def bitLength_numeral

lemma Number_3_14: "Number ''3.14'' = Finite (7070651414971679 / 2 ^ 51)"
  by (simp add: parse_defs, simp add: round_defs, simp add: pow2_def)

lemma Number_abc: "Number ''abc'' = NaN"
  by (simp add: parse_defs)

lemma Number_Infinity: "Number ''Infinity'' = PosInfinity"
  by (simp add: parse_defs)

text \<open>Overflow, white space beyond ASCII, a tie and negative zero.\<close>

lemma Number_1e400: "Number ''1e400'' = PosInfinity"
  by (simp add: parse_defs, simp add: round_defs, simp add: pow2_def)

lemma Number_NBSP: "Number (CHR 0xA0 # ''12'') = Finite 12"
  by (simp add: parse_defs, simp add: round_defs, simp add: pow2_def)

lemma Number_tie: "Number ''9007199254740993'' = Finite 9007199254740992"
  by (simp add: parse_defs, simp add: round_defs, simp add: pow2_def)

lemma Number_negative_zero: "Number ''-0'' = NegZero"
  by (simp add: parse_defs, simp add: round_defs)

subsection \<open>Coercion by \<^verbatim>\<open>Option.load\<close>\<close>

text \<open>
  Claim C3, as the code has it. \<^verbatim>\<open>load\<close> dispatches on \<^verbatim>\<open>typeof this.value\<close>, not on the
  declared type. On a boolean-typed Option that holds a boolean, \<^verbatim>\<open>load\<close> of \<^verbatim>\<open>"true"\<close>, \<^verbatim>\<open>"1"\<close>, \<^verbatim>\<open>"yes"\<close> or
  \<^verbatim>\<open>"enabled"\<close> sets the value to true and \<^verbatim>\<open>setByUser\<close> to true; \<^verbatim>\<open>load\<close> of
  \<^verbatim>\<open>"false"\<close>, \<^verbatim>\<open>"0"\<close>, \<^verbatim>\<open>"no"\<close> or \<^verbatim>\<open>"disabled"\<close> sets the value to false and
  \<^verbatim>\<open>setByUser\<close> to true; any other string leaves the whole Option as it was and logs one
  value-update error carrying the qualified name, the expected type, the input and the default.
\<close>

theorem load_boolean:
  assumes "type opt = BooleanT" and "value opt = VBoolean b"
  shows "load s opt =
     (if s \<in> {''true'', ''1'', ''yes'', ''enabled''}
        then (opt\<lparr>value := VBoolean True, setByUser := True\<rparr>, [])
      else if s \<in> {''false'', ''0'', ''no'', ''disabled''}
        then (opt\<lparr>value := VBoolean False, setByUser := True\<rparr>, [])
      else (opt, [ValueUpdateError (qualifiedName opt) BooleanT s (default opt)]))"
  using assms by (simp add: load_def parseBoolean_def printValueUpdateError_def)

text \<open>The Option \<^verbatim>\<open>debug.debug\<close> of the module, as constructed, under \<^verbatim>\<open>"yes"\<close> and
  \<^verbatim>\<open>"maybe"\<close>.\<close>

theorem load_boolean_witness:
  "type (module_store 12) = BooleanT \<and> value (module_store 12) = VBoolean False \<and>
   load ''yes'' (module_store 12) =
     ((module_store 12)\<lparr>value := VBoolean True, setByUser := True\<rparr>, []) \<and>
   load ''maybe'' (module_store 12) =
     (module_store 12, [ValueUpdateError ''uninitialized'' BooleanT ''maybe'' (VBoolean False)])"
proof -
  have t: "type (module_store 12) = BooleanT"
    by (simp add: module_defs)
  have v: "value (module_store 12) = VBoolean False"
    by (simp add: module_defs)
  have q: "qualifiedName (module_store 12) = ''uninitialized''"
    by (simp add: qualifiedName_def module_defs)
  have d: "default (module_store 12) = VBoolean False"
    by (simp add: module_defs)
  show ?thesis
    using t v load_boolean [OF t v, of "''yes''"] load_boolean [OF t v, of "''maybe''"]
    by (simp add: q d)
qed

text \<open>
  Against C3 as stated: after \<^verbatim>\<open>new Config().resolve([{debug:{debug:"1"}}])\<close> the
  boolean-typed Option \<^verbatim>\<open>debug.debug\<close> holds the string \<^verbatim>\<open>"1"\<close>. On that Option
  \<^verbatim>\<open>load("maybe")\<close> takes the string branch: the value becomes \<^verbatim>\<open>"maybe"\<close>,
  \<^verbatim>\<open>setByUser\<close> becomes true and nothing is logged.
\<close>

theorem load_boolean_holding_string_counterexample:
  "option_after (resolve app_config [Some [(''debug'', [(''debug'', OStr ''1'')])]] app_world) 12 =
     Inr ((store app_world 12)\<lparr>value := VString ''1''\<rparr>) \<and>
   type ((store app_world 12)\<lparr>value := VString ''1''\<rparr>) = BooleanT \<and>
   \<not> setByUser ((store app_world 12)\<lparr>value := VString ''1''\<rparr>) \<and>
   load ''maybe'' ((store app_world 12)\<lparr>value := VString ''1''\<rparr>) =
     ((store app_world 12)\<lparr>value := VString ''maybe'', setByUser := True\<rparr>, [])"
  by (simp add: option_after_def resolve_defs module_world_def module_setByUser module_values
        module_types load_def)

text \<open>
  Claim C4, as the code has it. On a number-typed Option that holds a number, \<^verbatim>\<open>load\<close>
  converts the input with \<^verbatim>\<open>Number\<close> and rejects it exactly when the result is \<^verbatim>\<open>NaN\<close>:
  then the Option is left as it was and one value-update error is logged. Every other result,
  finite or not, becomes the value and sets \<^verbatim>\<open>setByUser\<close>. \<^verbatim>\<open>"3.14"\<close> converts to the
  double 3.14, which is \<open>7070651414971679 / 2\<^sup>5\<^sup>1\<close>, and \<^verbatim>\<open>"abc"\<close> to \<^verbatim>\<open>NaN\<close>.
\<close>

theorem load_number:
  assumes "type opt = NumberT" and "value opt = VNumber n"
  shows "load s opt =
     (if Number s = NaN
        then (opt, [ValueUpdateError (qualifiedName opt) NumberT s (default opt)])
      else (opt\<lparr>value := VNumber (Number s), setByUser := True\<rparr>, []))
     \<and> Number ''3.14'' = Finite (7070651414971679 / 2 ^ 51) \<and> Number ''abc'' = NaN"
  using assms
  by (simp add: load_def isNaN_def printValueUpdateError_def Let_def Number_3_14 Number_abc)

text \<open>The Option \<^verbatim>\<open>loader.maxBeforeMainTimeMs\<close> of the module under \<^verbatim>\<open>"3.14"\<close> and
  \<^verbatim>\<open>"abc"\<close>.\<close>

theorem load_number_witness:
  "type (module_store 9) = NumberT \<and> value (module_store 9) = VNumber (Finite 300) \<and>
   load ''3.14'' (module_store 9) =
     ((module_store 9)\<lparr>value := VNumber (Finite (7070651414971679 / 2 ^ 51)), setByUser := True\<rparr>,
      []) \<and>
   load ''abc'' (module_store 9) =
     (module_store 9, [ValueUpdateError ''uninitialized'' NumberT ''abc'' (VNumber (Finite 300))])"
proof -
  have t: "type (module_store 9) = NumberT"
    by (simp add: module_defs)
  have v: "value (module_store 9) = VNumber (Finite 300)"
    by (simp add: module_defs)
  have q: "qualifiedName (module_store 9) = ''uninitialized''"
    by (simp add: qualifiedName_def module_defs)
  have d: "default (module_store 9) = VNumber (Finite 300)"
    by (simp add: module_defs)
  have n: "Number ''3.14'' \<noteq> NaN"
    by (simp only: Number_3_14) simp
  show ?thesis
    using t v n load_number [OF t v, of "''3.14''"] load_number [OF t v, of "''abc''"]
    by (simp add: q d del: power_numeral)
qed

text \<open>
  Against C4 as stated, twice. \<^verbatim>\<open>Number("Infinity")\<close> is not \<^verbatim>\<open>NaN\<close>, so
  \<^verbatim>\<open>load("Infinity")\<close> on \<^verbatim>\<open>loader.maxBeforeMainTimeMs\<close> is accepted: the value changes
  from 300 to infinity, \<^verbatim>\<open>setByUser\<close> becomes true and nothing is logged. And after
  \<^verbatim>\<open>new Config().resolve([{loader:{maxBeforeMainTimeMs:"5"}}])\<close> that number-typed Option
  holds the string \<^verbatim>\<open>"5"\<close>, so \<^verbatim>\<open>load("abc")\<close> takes the string branch and is accepted
  as well.
\<close>

theorem load_number_Infinity_counterexample:
  "type (module_store 9) = NumberT \<and> value (module_store 9) = VNumber (Finite 300) \<and>
   \<not> setByUser (module_store 9) \<and>
   load ''Infinity'' (module_store 9) =
     ((module_store 9)\<lparr>value := VNumber PosInfinity, setByUser := True\<rparr>, []) \<and>
   option_after
     (resolve app_config [Some [(''loader'', [(''maxBeforeMainTimeMs'', OStr ''5'')])]] app_world) 9 =
     Inr ((store app_world 9)\<lparr>value := VString ''5''\<rparr>) \<and>
   type ((store app_world 9)\<lparr>value := VString ''5''\<rparr>) = NumberT \<and>
   load ''abc'' ((store app_world 9)\<lparr>value := VString ''5''\<rparr>) =
     ((store app_world 9)\<lparr>value := VString ''abc'', setByUser := True\<rparr>, [])"
proof -
  have a: "type (module_store 9) = NumberT" "value (module_store 9) = VNumber (Finite 300)"
    "\<not> setByUser (module_store 9)"
    by (simp_all add: module_defs)
  have b: "load ''Infinity'' (module_store 9) =
     ((module_store 9)\<lparr>value := VNumber PosInfinity, setByUser := True\<rparr>, [])"
    by (simp add: load_def isNaN_def Let_def a Number_Infinity)
  have c: "option_after
     (resolve app_config [Some [(''loader'', [(''maxBeforeMainTimeMs'', OStr ''5'')])]] app_world) 9 =
     Inr ((store app_world 9)\<lparr>value := VString ''5''\<rparr>)"
    by (simp add: option_after_def resolve_defs module_world_def module_setByUser module_values)
  have d: "type ((store app_world 9)\<lparr>value := VString ''5''\<rparr>) = NumberT"
    by (simp add: app_world_def new_Config_def app_options_def initOptions.simps module_world_def
          module_types)
  have e: "load ''abc'' ((store app_world 9)\<lparr>value := VString ''5''\<rparr>) =
     ((store app_world 9)\<lparr>value := VString ''abc'', setByUser := True\<rparr>, [])"
    by (simp add: load_def)
  from a b c d e show ?thesis
    by (intro conjI)
qed

subsection \<open>\<^verbatim>\<open>Group.merge\<close> and sharing\<close>

lemma set_update_subset: "set (AList.update k v al) \<subseteq> insert (k, v) (set al)"
  by (induction al) auto

lemma fold_update_values:
  "snd ` set (fold (\<lambda>(k, v) acc. AList.update k v acc) ys xs) \<subseteq> snd ` set xs \<union> snd ` set ys"
proof (induction ys arbitrary: xs)
  case Nil
  show ?case by simp
next
  case (Cons y ys)
  obtain k v where y: "y = (k, v)"
    by (cases y)
  have "snd ` set (AList.update k v xs) \<subseteq> insert v (snd ` set xs)"
    using set_update_subset [of k v xs] by force
  with Cons.IH [of "AList.update k v xs"] show ?case
    by (auto simp: y)
qed

lemma reachable_eq: "reachable g = snd ` set (options g) \<union> reachable_in (groups g)"
  by (cases g) (simp add: reachable_in_def)

lemma reachable_in_update: "reachable_in (AList.update n g xs) \<subseteq> reachable_in xs \<union> reachable g"
proof
  fix r
  assume "r \<in> reachable_in (AList.update n g xs)"
  then obtain p where p: "p \<in> set (AList.update n g xs)" and r: "r \<in> reachable (snd p)"
    by (auto simp: reachable_in_def)
  from p set_update_subset [of n g xs] have "p = (n, g) \<or> p \<in> set xs"
    by blast
  with r show "r \<in> reachable_in xs \<union> reachable g"
    by (auto simp: reachable_in_def)
qed

lemma reachable_in_lookup: "map_of xs n = Some g \<Longrightarrow> reachable g \<subseteq> reachable_in xs"
  by (auto simp: reachable_in_def dest!: map_of_SomeD intro!: bexI [of _ "(n, g)"])

lemma reachable_in_Cons: "reachable_in ((n, g) # xs) = reachable g \<union> reachable_in xs"
  by (simp add: reachable_in_def)

lemma fold_merge_reachable:
  assumes "\<And>n og g. (n, og) \<in> set ys \<Longrightarrow> reachable (merge g og) \<subseteq> reachable g \<union> reachable og"
  shows "reachable_in (fold (\<lambda>(otherGroupName, otherGroup) result_groups.
                case map_of result_groups otherGroupName of
                  None \<Rightarrow> AList.update otherGroupName otherGroup result_groups
                | Some grp \<Rightarrow>
                    AList.update otherGroupName (merge grp otherGroup) result_groups) ys xs)
         \<subseteq> reachable_in xs \<union> reachable_in ys"
  using assms
proof (induction ys arbitrary: xs)
  case Nil
  show ?case by simp
next
  case (Cons y ys)
  obtain n og where y: "y = (n, og)"
    by (cases y)
  define xs' where "xs' = (case map_of xs n of
                  None \<Rightarrow> AList.update n og xs
                | Some grp \<Rightarrow> AList.update n (merge grp og) xs)"
  have step: "reachable_in xs' \<subseteq> reachable_in xs \<union> reachable og"
  proof (cases "map_of xs n")
    case None
    then show ?thesis
      using reachable_in_update [of n og xs] by (simp add: xs'_def)
  next
    case (Some g)
    have "reachable (merge g og) \<subseteq> reachable g \<union> reachable og"
      by (rule Cons.prems [of n]) (simp add: y)
    moreover have "reachable g \<subseteq> reachable_in xs"
      using Some by (rule reachable_in_lookup)
    moreover have "reachable_in xs' \<subseteq> reachable_in xs \<union> reachable (merge g og)"
      using Some reachable_in_update [of n "merge g og" xs] by (simp add: xs'_def)
    ultimately show ?thesis
      by blast
  qed
  have "reachable_in (fold (\<lambda>(otherGroupName, otherGroup) result_groups.
                case map_of result_groups otherGroupName of
                  None \<Rightarrow> AList.update otherGroupName otherGroup result_groups
                | Some grp \<Rightarrow>
                    AList.update otherGroupName (merge grp otherGroup) result_groups) ys xs')
         \<subseteq> reachable_in xs' \<union> reachable_in ys"
  proof (rule Cons.IH)
    fix m og' g
    assume "(m, og') \<in> set ys"
    then have "(m, og') \<in> set (y # ys)"
      by simp
    then show "reachable (merge g og') \<subseteq> reachable g \<union> reachable og'"
      by (rule Cons.prems)
  qed
  moreover have "fold (\<lambda>(otherGroupName, otherGroup) result_groups.
                case map_of result_groups otherGroupName of
                  None \<Rightarrow> AList.update otherGroupName otherGroup result_groups
                | Some grp \<Rightarrow>
                    AList.update otherGroupName (merge grp otherGroup) result_groups) (y # ys) xs
      = fold (\<lambda>(otherGroupName, otherGroup) result_groups.
                case map_of result_groups otherGroupName of
                  None \<Rightarrow> AList.update otherGroupName otherGroup result_groups
                | Some grp \<Rightarrow>
                    AList.update otherGroupName (merge grp otherGroup) result_groups) ys xs'"
    by (simp add: y xs'_def)
  moreover have "reachable_in (y # ys) = reachable og \<union> reachable_in ys"
    by (simp add: y reachable_in_Cons)
  ultimately show ?case
    using step by (simp only:) blast
qed

lemma options_merge:
  "snd ` set (options (merge A B)) \<subseteq> snd ` set (options A) \<union> snd ` set (options B)"
  by (subst merge.simps) (simp add: fold_update_values)

lemma reachable_merge: "reachable (merge A B) \<subseteq> reachable A \<union> reachable B"
proof (induction A B rule: merge.induct)
  case (1 this other)
  have ih: "reachable (merge g og) \<subseteq> reachable g \<union> reachable og"
    if "(n, og) \<in> set (groups other)" for n og g
    using that "1.IH" [of "(n, og)" n og "[(n, g)]" g] by simp
  have "groups (merge this other) =
      fold (\<lambda>(otherGroupName, otherGroup) result_groups.
                case map_of result_groups otherGroupName of
                  None \<Rightarrow> AList.update otherGroupName otherGroup result_groups
                | Some grp \<Rightarrow>
                    AList.update otherGroupName (merge grp otherGroup) result_groups)
           (groups other) (groups this)"
    by (subst merge.simps) simp
  then have gs: "reachable_in (groups (merge this other))
      \<subseteq> reachable_in (groups this) \<union> reachable_in (groups other)"
    using fold_merge_reachable [of "groups other" "groups this", OF ih] by simp
  show ?case
    using options_merge [of this other] gs
    unfolding reachable_eq [of "merge this other"] reachable_eq [of this] reachable_eq [of other]
    by blast
qed

lemma load_at_other: "r \<noteq> option \<Longrightarrow> store (load_at option s w) r = store w r"
  by (simp add: load_at_def split: prod.splits)

lemma Group_load_frame:
  assumes "r \<notin> snd ` set (options g)"
  shows "store (Group_load g config w) r = store w r"
proof -
  have entry: "store (case v of
                    OStr s \<Rightarrow>
                      (case map_of (options g) key of
                         None \<Rightarrow> console_error ''TODO'' w
                       | Some option \<Rightarrow> load_at option s w)
                  | _ \<Rightarrow> console_error ''TODO'' w) r = store w r" for key v w
  proof (cases v)
    case (OStr s)
    show ?thesis
    proof (cases "map_of (options g) key")
      case None
      with OStr show ?thesis by (simp add: console_error_def)
    next
      case (Some option)
      then have "(key, option) \<in> set (options g)"
        by (rule map_of_SomeD)
      with assms have "r \<noteq> option"
        by force
      with OStr Some show ?thesis
        by (simp add: load_at_other)
    qed
  qed (simp_all add: console_error_def)
  have loop: "store (fold (\<lambda>(key, v) w.
                  case v of
                    OStr s \<Rightarrow>
                      (case map_of (options g) key of
                         None \<Rightarrow> console_error ''TODO'' w
                       | Some option \<Rightarrow> load_at option s w)
                  | _ \<Rightarrow> console_error ''TODO'' w) entries w) r = store w r" for entries w
  proof (induction entries arbitrary: w)
    case Nil
    show ?case by simp
  next
    case (Cons e entries)
    obtain key v where e: "e = (key, v)"
      by (cases e)
    show ?case
      by (simp add: e Cons.IH entry)
  qed
  show ?thesis
    by (cases config) (simp_all add: Group_load_def loop console_error_def)
qed

text \<open>
  Claim C5, as the code has it. \<^verbatim>\<open>merge\<close> assigns to no Option and to no map of its inputs,
  but it copies no Option either: every Option reachable from \<^verbatim>\<open>m = A.merge(B)\<close> is an
  Option object reachable from \<^verbatim>\<open>A\<close> or from \<^verbatim>\<open>B\<close>. \<^verbatim>\<open>Group.load\<close> against \<^verbatim>\<open>m\<close>
  changes no Option other than Options held directly by \<^verbatim>\<open>A\<close> or by \<^verbatim>\<open>B\<close>.
\<close>

theorem merge_shares_load_frame:
  "reachable (merge A B) \<subseteq> reachable A \<union> reachable B \<and>
   (\<forall>r. r \<notin> snd ` set (options A) \<union> snd ` set (options B) \<longrightarrow>
        store (Group_load (merge A B) config w) r = store w r)"
proof (intro conjI allI impI)
  show "reachable (merge A B) \<subseteq> reachable A \<union> reachable B"
    by (rule reachable_merge)
next
  fix r
  assume "r \<notin> snd ` set (options A) \<union> snd ` set (options B)"
  with options_merge [of A B] have "r \<notin> snd ` set (options (merge A B))"
    by blast
  then show "store (Group_load (merge A B) config w) r = store w r"
    by (rule Group_load_frame)
qed

text \<open>The groups \<^verbatim>\<open>opt1\<close> and \<^verbatim>\<open>opt2\<close> of the module: the Option \<^verbatim>\<open>grp1Opt2\<close>
  (reference 3) is nested, so a load against the merged group leaves it alone.\<close>

theorem merge_shares_load_frame_witness:
  "reachable (merge opt1 opt2) \<subseteq> reachable opt1 \<union> reachable opt2 \<and>
   (3::nat) \<notin> snd ` set (options opt1) \<union> snd ` set (options opt2) \<and>
   store (Group_load (merge opt1 opt2) (OObj [(''opt2'', OStr ''true'')]) module_world) 3 =
     store module_world 3"
proof -
  have "(3::nat) \<notin> snd ` set (options opt1) \<union> snd ` set (options opt2)"
    by (simp add: opt1_def opt2_def)
  then show ?thesis
    using merge_shares_load_frame [of opt1 opt2 "OObj [(''opt2'', OStr ''true'')]" module_world]
    by blast
qed

text \<open>
  Against C5 as stated: with \<^verbatim>\<open>m = opt1.merge(opt2)\<close>, the call
  \<^verbatim>\<open>m.load({opt2: "true"})\<close> changes the Option \<^verbatim>\<open>opt2\<close> that \<^verbatim>\<open>opt2\<close> itself holds
  (reference 2): its value goes from false to true and its \<^verbatim>\<open>setByUser\<close> from false to true.
\<close>

theorem merge_shares_Options_counterexample:
  "map_of (options opt2) ''opt2'' = Some 2 \<and>
   value (store module_world 2) = VBoolean False \<and>
   \<not> setByUser (store module_world 2) \<and>
   value (store (Group_load (merge opt1 opt2) (OObj [(''opt2'', OStr ''true'')]) module_world) 2)
     = VBoolean True \<and>
   setByUser (store (Group_load (merge opt1 opt2) (OObj [(''opt2'', OStr ''true'')]) module_world) 2)"
  by (simp add: opt1_def opt2_def merge.simps Group_load_def load_at_def load_def parseBoolean_def
        module_world_def module_setByUser module_values)

text \<open>
  Claim C6 at a failing input: both groups hold an Option named \<^verbatim>\<open>opt1\<close>. The result holds
  the Option of \<^verbatim>\<open>other\<close> under that name; the result of \<^verbatim>\<open>merge\<close> is the group alone,
  and the branch that would warn is empty, so nothing is emitted for the shadowed name.
\<close>

theorem merge_shadows_Option_silently:
  "merge (Group [(''opt1'', 0)] []) (Group [(''opt1'', 2)] []) = Group [(''opt1'', 2)] []"
  by (simp add: merge.simps)

subsection \<open>Associativity of \<^verbatim>\<open>merge\<close>\<close>

lemma update_new_key: "k \<notin> fst ` set al \<Longrightarrow> AList.update k v al = al @ [(k, v)]"
  by (induction al) auto

lemma fold_append_new:
  assumes f: "\<And>k v acc. k \<notin> fst ` set acc \<Longrightarrow> f (k, v) acc = acc @ [(k, v)]"
  shows "distinct (map fst ys) \<Longrightarrow> fst ` set xs \<inter> fst ` set ys = {} \<Longrightarrow> fold f ys xs = xs @ ys"
proof (induction ys arbitrary: xs)
  case Nil
  then show ?case by simp
next
  case (Cons y ys)
  obtain k v where y: "y = (k, v)"
    by (cases y)
  from Cons.prems y have fresh: "k \<notin> fst ` set xs" and k_ys: "k \<notin> fst ` set ys"
    by auto
  have "fold f (y # ys) xs = fold f ys (xs @ [(k, v)])"
    by (simp add: y f [OF fresh])
  also have "\<dots> = (xs @ [(k, v)]) @ ys"
  proof (rule Cons.IH)
    show "distinct (map fst ys)"
      using Cons.prems by simp
    show "fst ` set (xs @ [(k, v)]) \<inter> fst ` set ys = {}"
      using Cons.prems k_ys y by auto
  qed
  finally show ?case
    by (simp add: y)
qed

lemma merge_disjoint:
  assumes "distinct_names B" and "disjoint_names A B"
  shows "merge A B = Group (options A @ options B) (groups A @ groups B)"
proof -
  have os: "fold (\<lambda>(k, v) acc. AList.update k v acc) (options B) (options A) = options A @ options B"
    using assms by (intro fold_append_new) (auto simp: update_new_key distinct_names_def disjoint_names_def)
  have step: "(case map_of acc k of
                  None \<Rightarrow> AList.update k v acc
                | Some grp \<Rightarrow> AList.update k (merge grp v) acc) = acc @ [(k, v)]"
    if "k \<notin> fst ` set acc" for k v and acc :: "(string \<times> Group) list"
  proof -
    from that have "map_of acc k = None"
      by (simp add: map_of_eq_None_iff)
    with that show ?thesis
      by (simp add: update_new_key)
  qed
  have gs: "fold (\<lambda>(otherGroupName, otherGroup) result_groups.
                case map_of result_groups otherGroupName of
                  None \<Rightarrow> AList.update otherGroupName otherGroup result_groups
                | Some grp \<Rightarrow>
                    AList.update otherGroupName (merge grp otherGroup) result_groups)
             (groups B) (groups A) = groups A @ groups B"
    using assms
    by (intro fold_append_new) (auto simp: step distinct_names_def disjoint_names_def)
  show ?thesis
    by (subst merge.simps) (simp only: os gs)
qed

text \<open>
  Claim C9. For Groups \<^verbatim>\<open>A\<close>, \<^verbatim>\<open>B\<close>, \<^verbatim>\<open>C\<close> that pairwise share no Option name and no
  group name (already at the top level; deeper levels are then never merged),
  \<^verbatim>\<open>(A.merge(B)).merge(C)\<close> and \<^verbatim>\<open>A.merge(B.merge(C))\<close> are the same tree over the same
  Options, entry order included, so every load against them gives the same store and the same
  diagnostics.
\<close>

theorem merge_assoc_disjoint:
  assumes "distinct_names B" and "distinct_names C"
    and "disjoint_names A B" and "disjoint_names A C" and "disjoint_names B C"
  shows "merge (merge A B) C = merge A (merge B C) \<and>
         Group_load (merge (merge A B) C) config w = Group_load (merge A (merge B C)) config w"
proof -
  have ab: "merge A B = Group (options A @ options B) (groups A @ groups B)"
    using assms by (intro merge_disjoint)
  have bc: "merge B C = Group (options B @ options C) (groups B @ groups C)"
    using assms by (intro merge_disjoint)
  have "disjoint_names (merge A B) C"
    using assms by (auto simp: ab disjoint_names_def)
  then have l: "merge (merge A B) C =
      Group ((options A @ options B) @ options C) ((groups A @ groups B) @ groups C)"
    using assms by (simp add: merge_disjoint ab)
  have "distinct_names (merge B C)" and "disjoint_names A (merge B C)"
    using assms by (auto simp: bc disjoint_names_def distinct_names_def)
  then have r: "merge A (merge B C) =
      Group (options A @ options B @ options C) (groups A @ groups B @ groups C)"
    by (simp add: merge_disjoint bc)
  from l r show ?thesis
    by simp
qed


text \<open>Three groups with pairwise different names, over Options of the module.\<close>

theorem merge_assoc_disjoint_witness:
  "distinct_names (Group [(''opt2'', 2)] []) \<and>
   distinct_names (Group [] [(''grp2'', Group [(''grp1Opt2'', 3)] [])]) \<and>
   disjoint_names opt1 (Group [(''opt2'', 2)] []) \<and>
   disjoint_names opt1 (Group [] [(''grp2'', Group [(''grp1Opt2'', 3)] [])]) \<and>
   disjoint_names (Group [(''opt2'', 2)] []) (Group [] [(''grp2'', Group [(''grp1Opt2'', 3)] [])]) \<and>
   merge (merge opt1 (Group [(''opt2'', 2)] [])) (Group [] [(''grp2'', Group [(''grp1Opt2'', 3)] [])]) =
   merge opt1 (merge (Group [(''opt2'', 2)] []) (Group [] [(''grp2'', Group [(''grp1Opt2'', 3)] [])])) \<and>
   merge (merge opt1 (Group [(''opt2'', 2)] [])) (Group [] [(''grp2'', Group [(''grp1Opt2'', 3)] [])]) =
   Group [(''opt1'', 0), (''opt2'', 2)]
     [(''grp1'', Group [(''grp1Opt1'', 1)] []), (''grp2'', Group [(''grp1Opt2'', 3)] [])]"
proof -
  let ?B = "Group [(''opt2'', 2)] []"
  let ?C = "Group [] [(''grp2'', Group [(''grp1Opt2'', 3)] [])]"
  have dB: "distinct_names ?B" and dC: "distinct_names ?C"
    by (simp_all add: distinct_names_def)
  have AB: "disjoint_names opt1 ?B" and AC: "disjoint_names opt1 ?C" and BC: "disjoint_names ?B ?C"
    by (simp_all add: disjoint_names_def opt1_def)
  have "merge (merge opt1 ?B) ?C =
      Group [(''opt1'', 0), (''opt2'', 2)]
        [(''grp1'', Group [(''grp1Opt1'', 1)] []), (''grp2'', Group [(''grp1Opt2'', 3)] [])]"
    by (simp add: merge.simps opt1_def)
  with dB dC AB AC BC merge_assoc_disjoint [OF dB dC AB AC BC] show ?thesis
    by simp
qed

subsection \<open>\<^verbatim>\<open>Config.finalize\<close>\<close>

text \<open>
  Claim C10. \<^verbatim>\<open>finalize\<close> is idempotent on every state: running it a second time on the
  state the first run returns gives that state again, every Option unchanged (and a first run
  that throws is a run that throws).
\<close>

theorem finalize_idempotent:
  "(case finalize this_options w of Inl e \<Rightarrow> Inl e | Inr w' \<Rightarrow> finalize this_options w') =
   finalize this_options w"
  by (auto simp: finalize_def split: option.splits)

text \<open>The module's \<^verbatim>\<open>Config\<close> after \<^verbatim>\<open>startup.entry\<close> was set to \<^verbatim>\<open>"custom"\<close>: the first
  run turns \<^verbatim>\<open>loader.enabled\<close> off, the second changes nothing.\<close>

theorem finalize_idempotent_witness:
  "(case finalize app_config
           (app_world\<lparr>store := (store app_world)
              (10 := (store app_world 10)\<lparr>value := VString ''custom''\<rparr>)\<rparr>) of
      Inl e \<Rightarrow> Inl e
    | Inr w' \<Rightarrow> finalize app_config w') =
   Inr (app_world\<lparr>store := (store app_world)
          (10 := (store app_world 10)\<lparr>value := VString ''custom''\<rparr>,
           4 := (store app_world 4)\<lparr>value := VBoolean False\<rparr>)\<rparr>)"
proof -
  have "finalize app_config
           (app_world\<lparr>store := (store app_world)
              (10 := (store app_world 10)\<lparr>value := VString ''custom''\<rparr>)\<rparr>) =
        Inr (app_world\<lparr>store := (store app_world)
          (10 := (store app_world 10)\<lparr>value := VString ''custom''\<rparr>,
           4 := (store app_world 4)\<lparr>value := VBoolean False\<rparr>)\<rparr>)"
    by (simp add: resolve_defs module_world_def module_setByUser)
  then show ?thesis
    using finalize_idempotent [of app_config
           "app_world\<lparr>store := (store app_world)
              (10 := (store app_world 10)\<lparr>value := VString ''custom''\<rparr>)\<rparr>"]
    by simp
qed

subsection \<open>\<^verbatim>\<open>Config.resolve\<close>\<close>

text \<open>
  What \<^verbatim>\<open>resolve\<close> cannot do, on any options and any sources: whenever it returns, it
  returns \<^verbatim>\<open>null\<close>, it has logged nothing, and the \<^verbatim>\<open>setByUser\<close> flag of every Option is
  what it was before.
\<close>

lemma quiet_refl: "quiet w w"
  by (simp add: quiet_def)

lemma quiet_trans: "quiet w w' \<Longrightarrow> quiet w' w'' \<Longrightarrow> quiet w w''"
  by (simp add: quiet_def)

lemma quiet_assign: "quiet w (w\<lparr>store := (store w)(r := (store w r)\<lparr>value := v\<rparr>)\<rparr>)"
  by (simp add: quiet_def)

lemma quiet_fold:
  assumes "\<And>x w. x \<in> set xs \<Longrightarrow> quiet w (f x w)"
  shows "quiet w (fold f xs w)"
  using assms
proof (induction xs arbitrary: w)
  case Nil
  show ?case by (simp add: quiet_refl)
next
  case (Cons x xs)
  have "quiet w (f x w)"
    by (rule Cons.prems) simp
  moreover have "quiet (f x w) (fold f xs (f x w))"
    by (rule Cons.IH) (rule Cons.prems, simp)
  ultimately show ?case
    by (auto intro: quiet_trans)
qed

lemma resolveFromObjectInternal_quiet:
  "fst (resolveFromObjectInternal opts other w) = None \<and>
   quiet w (snd (resolveFromObjectInternal opts other w))"
proof (induction other arbitrary: opts w)
  case (OObj entries)
  have "quiet w
     (case map_of opts key of
        None \<Rightarrow> w
      | Some option \<Rightarrow>
          (case v of
             OStr s \<Rightarrow>
               (case option of
                  IsOption r \<Rightarrow> w\<lparr>store := (store w)(r := (store w r)\<lparr>value := VString s\<rparr>)\<rparr>
                | IsOptions _ \<Rightarrow> w)
           | _ \<Rightarrow>
               (case option of
                  IsOption _ \<Rightarrow> w
                | IsOptions sub \<Rightarrow> snd (resolveFromObjectInternal sub v w))))"
    if "(key, v) \<in> set entries" for key v w
  proof -
    have "quiet w (snd (resolveFromObjectInternal sub v w))" for sub
      using OObj.IH [of "(key, v)" v sub w] that by simp
    then show ?thesis
      by (auto simp: quiet_refl quiet_assign split: option.split OverrideValue.split ExternalEntry.split)
  qed
  then have "quiet w (fold (\<lambda>(key, v) w.
                  case map_of opts key of
                    None \<Rightarrow> w
                  | Some option \<Rightarrow>
                      (case v of
                         OStr s \<Rightarrow>
                           (case option of
                              IsOption r \<Rightarrow>
                                w\<lparr>store := (store w)(r := (store w r)\<lparr>value := VString s\<rparr>)\<rparr>
                            | IsOptions _ \<Rightarrow> w)
                       | _ \<Rightarrow>
                           (case option of
                              IsOption _ \<Rightarrow> w
                            | IsOptions sub \<Rightarrow> snd (resolveFromObjectInternal sub v w))))
               entries w)"
    by (intro quiet_fold) auto
  then show ?case
    by (simp add: resolveFromObjectInternal.simps)
qed (simp_all add: quiet_refl resolveFromObjectInternal.simps)

lemma finalize_quiet: "finalize opts w = Inr w' \<Longrightarrow> quiet w w'"
  by (auto simp: finalize_def quiet_def split: option.splits if_splits)

lemma resolve_quiet:
  assumes "resolve opts overrides w = Inr (unrecognizedParams, w')"
  shows "unrecognizedParams = None \<and> quiet w w'"
proof -
  let ?r = "resolveFromObject opts (map (\<lambda>(grp, opts). (grp, OObj opts)) (collectOverrides overrides)) w"
  from assms have f: "finalize opts (snd ?r) = Inr w'" and u: "unrecognizedParams = fst ?r"
    by (auto simp: resolve_def Let_def split: sum.splits)
  have "fst ?r = None" and "quiet w (snd ?r)"
    by (simp_all add: resolveFromObject_def resolveFromObjectInternal_quiet)
  with f u show ?thesis
    by (auto dest!: finalize_quiet intro: quiet_trans)
qed

text \<open>
  Claim C1 at its inputs, on the module's \<^verbatim>\<open>Config\<close> (\<^verbatim>\<open>startup.entry\<close> a string with
  default \<^verbatim>\<open>"ide"\<close>, \<^verbatim>\<open>loader.enabled\<close> a boolean with default true, reference 4). With
  \<^verbatim>\<open>{startup:{entry:"custom"}, loader:{enabled:"true"}}\<close> the raw string reaches
  \<^verbatim>\<open>loader.enabled.value\<close> without \<^verbatim>\<open>setByUser\<close> being set, so \<^verbatim>\<open>finalize\<close> applies its
  rule: the value ends false and \<^verbatim>\<open>setByUser\<close> false, where the claim has true. With
  \<^verbatim>\<open>{startup:{entry:"custom"}}\<close> alone the value ends false, as the claim has it.
\<close>

theorem resolve_explicit_loader_enabled:
  "outcome (resolve app_config
      [Some [(''startup'', [(''entry'', OStr ''custom'')]),
             (''loader'', [(''enabled'', OStr ''true'')])]] app_world) 4 =
     Inr (None, VBoolean False, False, []) \<and>
   outcome (resolve app_config
      [Some [(''startup'', [(''entry'', OStr ''custom'')])]] app_world) 4 =
     Inr (None, VBoolean False, False, [])"
  by (simp add: resolve_defs module_world_def module_setByUser module_values)

text \<open>
  Claim C2 at a failing input: two sources that both set \<^verbatim>\<open>debug.debug\<close> (a boolean
  Option, reference 12), \<^verbatim>\<open>"0"\<close> first and \<^verbatim>\<open>"1"\<close> later. The later source wins, but the
  Option ends with the raw string \<^verbatim>\<open>"1"\<close>, not the coerced \<^verbatim>\<open>true\<close>, and its
  \<^verbatim>\<open>setByUser\<close> is still false.
\<close>

theorem resolve_two_sources_same_leaf:
  "outcome (resolve app_config
      [Some [(''debug'', [(''debug'', OStr ''0'')])],
       Some [(''debug'', [(''debug'', OStr ''1'')])]] app_world) 12 =
     Inr (None, VString ''1'', False, [])"
  by (simp add: resolve_defs module_world_def module_setByUser module_values)

text \<open>
  Claim C7 at a failing input: the path \<^verbatim>\<open>foo.bar\<close> matches nothing in the options.
  \<^verbatim>\<open>resolve\<close> does not throw, but it returns \<^verbatim>\<open>null\<close>, not a list holding
  \<^verbatim>\<open>"foo.bar"\<close>, and nothing is logged.
\<close>

theorem resolve_unrecognized_path:
  "outcome (resolve app_config [Some [(''foo'', [(''bar'', OStr ''1'')])]] app_world) 4 =
     Inr (None, VBoolean True, False, [])"
  by (simp add: resolve_defs module_world_def module_setByUser module_values)

text \<open>
  Claim C8 at a failing input: \<^verbatim>\<open>"maybe"\<close> for the boolean Option \<^verbatim>\<open>loader.enabled\<close>.
  \<^verbatim>\<open>resolve\<close> returns normally, but the value is not kept: it becomes the string
  \<^verbatim>\<open>"maybe"\<close>, and neither a diagnostic nor an unrecognized path records it.
\<close>

theorem resolve_unparseable_scalar:
  "outcome (resolve app_config [Some [(''loader'', [(''enabled'', OStr ''maybe'')])]] app_world) 4 =
     Inr (None, VString ''maybe'', False, [])"
  by (simp add: resolve_defs module_world_def module_setByUser module_values)

end
